theory Spec2Isabelle
  imports
    Main
    "HOL-Library.Char_ord"
    "HOL-Library.List_Lexorder"
    "HOL-Library.Option_ord"
begin

section \<open>The relational store of app.py\<close>

text \<open>
  \<^verbatim>\<open>create_database\<close> writes four data frames with
  \<^verbatim>\<open>to_sql(name, conn, if_exists="replace", index=False)\<close>. A table made this way
  has one plain column per column of the frame: no PRIMARY KEY, no UNIQUE, no NOT NULL and
  no DEFAULT. Every column can therefore hold NULL, written \<open>None\<close> here, and a row is
  identified by nothing but its position in the table.

  The columns of \<^verbatim>\<open>food_listings\<close> are the nine that the statements of app.py
  name.
\<close>

record food_listing =
  Food_ID :: "int option"
  Food_Name :: "string option"
  Quantity :: "int option"
  Expiry_Date :: "string option"
  Provider_ID :: "int option"
  Provider_Type :: "string option"
  Location :: "string option"
  Food_Type :: "string option"
  Meal_Type :: "string option"

text \<open>
  The eight values that the Add Listing and Update Listing forms bind to the \<^verbatim>\<open>?\<close>
  placeholders, in the order of the parameter tuple. Python's \<^verbatim>\<open>None\<close> binds NULL.
\<close>

record listing_values =
  new_Food_Name :: "string option"
  new_Quantity :: "int option"
  new_Expiry_Date :: "string option"
  new_Provider_ID :: "int option"
  new_Provider_Type :: "string option"
  new_Location :: "string option"
  new_Food_Type :: "string option"
  new_Meal_Type :: "string option"

text \<open>
  Modelled from the spec: the seed files are not part of the sources, so the columns of
  \<^verbatim>\<open>providers\<close>, \<^verbatim>\<open>receivers\<close> and \<^verbatim>\<open>claims\<close> are the
  attributes the specification lists. The statements of app.py read only \<^verbatim>\<open>City\<close>
  and \<^verbatim>\<open>Status\<close> of them.
\<close>

record provider =
  prov_Provider_ID :: "int option"
  prov_Name :: "string option"
  prov_Type :: "string option"
  prov_City :: "string option"
  prov_Contact :: "string option"

record receiver =
  recv_Receiver_ID :: "int option"
  recv_Name :: "string option"
  recv_Type :: "string option"
  recv_City :: "string option"
  recv_Contact :: "string option"

record claim =
  claim_Claim_ID :: "int option"
  claim_Food_ID :: "int option"
  claim_Receiver_ID :: "int option"
  claim_Status :: "string option"
  claim_Timestamp :: "string option"

text \<open>The database file: four tables, each the list of its rows in rowid order.\<close>

record database =
  providers :: "provider list"
  receivers :: "receiver list"
  food_listings :: "food_listing list"
  claims :: "claim list"

section \<open>The statements of the listing flows\<close>

text \<open>
  The comparison \<^verbatim>\<open>Food_ID = ?\<close> of a WHERE clause. SQL comparison with NULL on
  either side yields NULL, and WHERE keeps a row only when its condition is true.
\<close>

definition where_Food_ID :: "int option \<Rightarrow> food_listing \<Rightarrow> bool" where
  "where_Food_ID p r =
     (case Food_ID r of
        None \<Rightarrow> False
      | Some i \<Rightarrow> (case p of None \<Rightarrow> False | Some j \<Rightarrow> i = j))"

text \<open>
  \<^verbatim>\<open>INSERT INTO food_listings (Food_Name, Quantity, Expiry_Date, Provider_ID,
  Provider_Type, Location, Food_Type, Meal_Type) VALUES (?, ?, ?, ?, ?, ?, ?, ?)\<close>:
  the column list leaves \<^verbatim>\<open>Food_ID\<close> out, the column has no default and is not
  an INTEGER PRIMARY KEY, so the new row stores NULL there.
\<close>

definition new_row :: "listing_values \<Rightarrow> food_listing" where
  "new_row v =
     \<lparr> Food_ID = None,
       Food_Name = new_Food_Name v,
       Quantity = new_Quantity v,
       Expiry_Date = new_Expiry_Date v,
       Provider_ID = new_Provider_ID v,
       Provider_Type = new_Provider_Type v,
       Location = new_Location v,
       Food_Type = new_Food_Type v,
       Meal_Type = new_Meal_Type v \<rparr>"

definition add_listing :: "listing_values \<Rightarrow> database \<Rightarrow> database" where
  "add_listing v d = d\<lparr>food_listings := food_listings d @ [new_row v]\<rparr>"

text \<open>\<^verbatim>\<open>SELECT * FROM food_listings WHERE Food_ID = ?\<close>, the read-for-edit.\<close>

definition read_for_edit :: "int option \<Rightarrow> database \<Rightarrow> food_listing list" where
  "read_for_edit p d = filter (where_Food_ID p) (food_listings d)"

text \<open>
  \<^verbatim>\<open>UPDATE food_listings SET Food_Name=?, Quantity=?, Expiry_Date=?, Provider_ID=?,
  Provider_Type=?, Location=?, Food_Type=?, Meal_Type=? WHERE Food_ID=?\<close>.
\<close>

definition set_columns :: "listing_values \<Rightarrow> food_listing \<Rightarrow> food_listing" where
  "set_columns v r =
     r\<lparr> Food_Name := new_Food_Name v,
       Quantity := new_Quantity v,
       Expiry_Date := new_Expiry_Date v,
       Provider_ID := new_Provider_ID v,
       Provider_Type := new_Provider_Type v,
       Location := new_Location v,
       Food_Type := new_Food_Type v,
       Meal_Type := new_Meal_Type v \<rparr>"

definition update_listing :: "listing_values \<Rightarrow> int option \<Rightarrow> database \<Rightarrow> database" where
  "update_listing v p d =
     d\<lparr>food_listings :=
         map (\<lambda>r. if where_Food_ID p r then set_columns v r else r) (food_listings d)\<rparr>"

text \<open>\<^verbatim>\<open>DELETE FROM food_listings WHERE Food_ID=?\<close>.\<close>

definition delete_listing :: "int option \<Rightarrow> database \<Rightarrow> database" where
  "delete_listing p d =
     d\<lparr>food_listings := filter (\<lambda>r. \<not> where_Food_ID p r) (food_listings d)\<rparr>"

section \<open>The query and action gateway\<close>

text \<open>
  An error raised by the store: \<^verbatim>\<open>sqlite3\<close> raises it from
  \<^verbatim>\<open>conn.execute\<close> and \<^verbatim>\<open>conn.commit\<close>, and pandas re-raises it from
  \<^verbatim>\<open>read_sql_query\<close>. app.py catches none of them.
\<close>

datatype db_error = DatabaseError string

text \<open>
  What the process holds of the store: the committed contents of \<^verbatim>\<open>food_waste.db\<close>,
  the handles of the connections that are open, and the handle that the next
  \<^verbatim>\<open>sqlite3.connect\<close> returns.
\<close>

record store =
  data :: database
  open_connections :: "nat list"
  next_connection :: nat

definition get_connection :: "store \<Rightarrow> nat \<times> store" where
  "get_connection s =
     (next_connection s,
      s\<lparr>open_connections := open_connections s @ [next_connection s],
        next_connection := Suc (next_connection s)\<rparr>)"

definition conn_close :: "nat \<Rightarrow> store \<Rightarrow> store" where
  "conn_close conn s = s\<lparr>open_connections := removeAll conn (open_connections s)\<rparr>"

text \<open>
  A statement together with its bound parameters is given by what it computes on the
  contents of the database: a read yields the rows of its result or raises, a write yields
  the new contents or raises.

  \<^verbatim>\<open>
  def run_query(query, params=()):
      conn = get_connection()
      df = pd.read_sql_query(query, conn, params=params)
      conn.close()
      return df
  \<close>
  There is no \<^verbatim>\<open>try\<close>, \<^verbatim>\<open>finally\<close> or \<^verbatim>\<open>with\<close>: when
  \<^verbatim>\<open>read_sql_query\<close> raises, the two lines after it do not run.
\<close>

definition run_query ::
  "(database \<Rightarrow> db_error + 'a list) \<Rightarrow> store \<Rightarrow> (db_error + 'a list) \<times> store" where
  "run_query query s =
     (case get_connection s of
        (conn, s1) \<Rightarrow>
          (case query (data s1) of
             Inl e \<Rightarrow> (Inl e, s1)
           | Inr df \<Rightarrow> (Inr df, conn_close conn s1)))"

text \<open>
  \<^verbatim>\<open>
  def run_action(query, params=()):
      conn = get_connection()
      conn.execute(query, params)
      conn.commit()
      conn.close()
  \<close>
  \<open>query\<close> stands for \<^verbatim>\<open>execute\<close> followed by \<^verbatim>\<open>commit\<close>: when either
  raises, nothing has been committed, \<^verbatim>\<open>conn.close()\<close> is not reached and the error
  leaves the function.
\<close>

definition run_action ::
  "(database \<Rightarrow> db_error + database) \<Rightarrow> store \<Rightarrow> (db_error + unit) \<times> store" where
  "run_action query s =
     (case get_connection s of
        (conn, s1) \<Rightarrow>
          (case query (data s1) of
             Inl e \<Rightarrow> (Inl e, s1)
           | Inr d \<Rightarrow> (Inr (), conn_close conn (s1\<lparr>data := d\<rparr>))))"

section \<open>The reports\<close>

text \<open>
  \<^verbatim>\<open>SELECT col, COUNT(*) FROM t GROUP BY col\<close>: one row for each distinct value of the
  column, NULL being a value like any other for grouping, with the number of rows of the
  table that carry it. SQLite emits the groups in ascending order of the column, NULL
  first and text by its bytes.
\<close>

definition group_count :: "('r \<Rightarrow> 'k::linorder) \<Rightarrow> 'r list \<Rightarrow> ('k \<times> nat) list" where
  "group_count col rows =
     map (\<lambda>k. (k, length (filter (\<lambda>r. col r = k) rows))) (sort (remdups (map col rows)))"

text \<open>
  \<^verbatim>\<open>
  SELECT City, SUM(providers_count) AS Providers, SUM(receivers_count) AS Receivers
  FROM (
      SELECT City, COUNT(*) AS providers_count, 0 AS receivers_count FROM providers GROUP BY City
      UNION ALL
      SELECT City, 0, COUNT(*) FROM receivers GROUP BY City
  )
  GROUP BY City
  ORDER BY City;
  \<close>
\<close>

definition q1_subquery :: "database \<Rightarrow> (string option \<times> nat \<times> nat) list" where
  "q1_subquery d =
     map (\<lambda>(city, n). (city, n, 0)) (group_count prov_City (providers d)) @
     map (\<lambda>(city, n). (city, 0, n)) (group_count recv_City (receivers d))"

definition q1 :: "database \<Rightarrow> (string option \<times> nat \<times> nat) list" where
  "q1 d =
     map (\<lambda>city.
            (city,
             sum_list (map (\<lambda>(c, p, r). p) (filter (\<lambda>(c, p, r). c = city) (q1_subquery d))),
             sum_list (map (\<lambda>(c, p, r). r) (filter (\<lambda>(c, p, r). c = city) (q1_subquery d)))))
         (sort (remdups (map fst (q1_subquery d))))"

text \<open>
  \<^verbatim>\<open>
  SELECT Food_Type, COUNT(*) AS Count_Listings
  FROM food_listings
  GROUP BY Food_Type
  ORDER BY Count_Listings DESC;
  \<close>
  The order among groups of equal count is not fixed by the statement; here they stay in
  the order of the grouping.
\<close>

definition q7 :: "database \<Rightarrow> (string option \<times> nat) list" where
  "q7 d = sort_key (\<lambda>(food_type, n). - int n) (group_count Food_Type (food_listings d))"

text \<open>
  The third report, \<^verbatim>\<open>q10\<close>, selects
  \<^verbatim>\<open>ROUND(100.0*COUNT(*)/(SELECT COUNT(*) FROM claims),2)\<close> for each status. That
  value is a binary floating-point number produced by the store's own division and
  rounding; it is not given a definition here.
\<close>

section \<open>The listing flows through the gateway\<close>

text \<open>
  The calls of the Update Listing and Delete Listing pages. On a database that has the
  table \<^verbatim>\<open>food_listings\<close> neither statement raises, whatever its parameter matches.
  \<^verbatim>\<open>
  current_data = run_query("SELECT * FROM food_listings WHERE Food_ID = ?", (selected_id,))
  run_action("DELETE FROM food_listings WHERE Food_ID=?", (selected_id,))
  \<close>
\<close>

definition current_data :: "int option \<Rightarrow> store \<Rightarrow> (db_error + food_listing list) \<times> store" where
  "current_data selected_id s = run_query (\<lambda>d. Inr (read_for_edit selected_id d)) s"

definition Delete_Listing :: "int option \<Rightarrow> store \<Rightarrow> (db_error + unit) \<times> store" where
  "Delete_Listing selected_id s = run_action (\<lambda>d. Inr (delete_listing selected_id d)) s"

section \<open>Example data\<close>

text \<open>The listing of the specification's example, as the Add Listing form binds it.\<close>

definition rice :: listing_values where
  "rice =
     \<lparr> new_Food_Name = Some ''Rice'',
       new_Quantity = Some 10,
       new_Expiry_Date = Some ''2025-01-01'',
       new_Provider_ID = Some 1,
       new_Provider_Type = Some ''Restaurant'',
       new_Location = Some ''X'',
       new_Food_Type = Some ''Grain'',
       new_Meal_Type = Some ''Lunch'' \<rparr>"

definition soup :: listing_values where
  "soup =
     \<lparr> new_Food_Name = Some ''Soup'',
       new_Quantity = Some 3,
       new_Expiry_Date = Some ''2025-02-02'',
       new_Provider_ID = Some 2,
       new_Provider_Type = Some ''Grocery Store'',
       new_Location = Some ''Y'',
       new_Food_Type = Some ''Vegan'',
       new_Meal_Type = Some ''Dinner'' \<rparr>"

text \<open>A database as the seed leaves it, with two listings that carry the ids 1 and 2.\<close>

definition bread :: food_listing where
  "bread =
     \<lparr> Food_ID = Some 1,
       Food_Name = Some ''Bread'',
       Quantity = Some 43,
       Expiry_Date = Some ''2025-03-17'',
       Provider_ID = Some 1,
       Provider_Type = Some ''Supermarket'',
       Location = Some ''Z'',
       Food_Type = Some ''Vegetarian'',
       Meal_Type = Some ''Breakfast'' \<rparr>"

definition salad :: food_listing where
  "salad =
     \<lparr> Food_ID = Some 2,
       Food_Name = Some ''Salad'',
       Quantity = Some 5,
       Expiry_Date = Some ''2025-03-20'',
       Provider_ID = Some 2,
       Provider_Type = Some ''Restaurant'',
       Location = Some ''Y'',
       Food_Type = Some ''Vegan'',
       Meal_Type = Some ''Lunch'' \<rparr>"

definition seeded :: database where
  "seeded = \<lparr> providers = [], receivers = [], food_listings = [bread, salad], claims = [] \<rparr>"

text \<open>Tables for the reports: a city without receivers, one without providers, a NULL city.\<close>

definition provider_in :: "int \<Rightarrow> string option \<Rightarrow> provider" where
  "provider_in i city =
     \<lparr> prov_Provider_ID = Some i, prov_Name = Some ''P'', prov_Type = Some ''Restaurant'',
       prov_City = city, prov_Contact = Some ''000'' \<rparr>"

definition receiver_in :: "int \<Rightarrow> string option \<Rightarrow> receiver" where
  "receiver_in i city =
     \<lparr> recv_Receiver_ID = Some i, recv_Name = Some ''R'', recv_Type = Some ''NGO'',
       recv_City = city, recv_Contact = Some ''000'' \<rparr>"

definition report_data :: database where
  "report_data =
     \<lparr> providers =
         [provider_in 1 (Some ''Pune''), provider_in 2 (Some ''Agra''),
          provider_in 3 (Some ''Pune'')],
       receivers =
         [receiver_in 1 (Some ''Delhi''), receiver_in 2 None, receiver_in 3 (Some ''Agra'')],
       food_listings =
         [bread, salad, bread, new_row rice, salad, salad\<lparr>Food_Type := None\<rparr>],
       claims = [] \<rparr>"

definition store0 :: store where
  "store0 = \<lparr> data = seeded, open_connections = [], next_connection = 0 \<rparr>"

text \<open>
  A read and a write that the store rejects, such as
  \<^verbatim>\<open>run_query("SELECT * FROM listings")\<close> on a database without that table.
\<close>

definition failing_read :: "database \<Rightarrow> db_error + food_listing list" where
  "failing_read d = Inl (DatabaseError ''no such table: listings'')"

definition failing_write :: "database \<Rightarrow> db_error + database" where
  "failing_write d = Inl (DatabaseError ''no such table: listings'')"

section \<open>Listing flows: create and read-for-edit\<close>

lemma add_listing_rows: "food_listings (add_listing v d) = food_listings d @ [new_row v]"
  by (simp add: add_listing_def)

lemma new_row_Food_ID: "Food_ID (new_row v) = None"
  by (simp add: new_row_def)

lemma where_Food_ID_new_row: "\<not> where_Food_ID p (new_row v)"
  by (simp add: where_Food_ID_def new_row_def)

lemma where_Food_ID_NULL: "\<not> where_Food_ID None r"
  by (simp add: where_Food_ID_def split: option.splits)

lemma read_for_edit_NULL: "read_for_edit None d = []"
  by (simp add: read_for_edit_def where_Food_ID_NULL)

lemma read_for_edit_add_listing: "read_for_edit p (add_listing v d) = read_for_edit p d"
  by (simp add: read_for_edit_def add_listing_rows where_Food_ID_new_row)

text \<open>
  C1. The claim: every create supplies the eight attributes but not \<^verbatim>\<open>Food_ID\<close>, and
  the store assigns the new row a \<^verbatim>\<open>Food_ID\<close> that is unique among all listings.
  The code does the first half only. Adding the example listing to the seeded table appends
  a row whose \<^verbatim>\<open>Food_ID\<close> is NULL, and adding two listings leaves two rows with the
  same \<^verbatim>\<open>Food_ID\<close>, NULL: the column list of the INSERT omits \<^verbatim>\<open>Food_ID\<close> and
  the table that \<^verbatim>\<open>to_sql\<close> created has no key that would fill it in.
\<close>

theorem add_listing_stores_no_Food_ID:
  "food_listings (add_listing rice seeded) = [bread, salad, new_row rice] \<and>
   Food_ID (last (food_listings (add_listing rice seeded))) = None \<and>
   map Food_ID (food_listings (add_listing soup (add_listing rice seeded))) =
     [Some 1, Some 2, None, None] \<and>
   \<not> distinct (map Food_ID (food_listings (add_listing soup (add_listing rice seeded))))"
  by (simp add: add_listing_rows new_row_Food_ID seeded_def bread_def salad_def)

text \<open>
  C2. The claim: after a listing is inserted, the read-for-edit by the identifier assigned
  to it returns exactly one row, with the inserted values. The code assigns no identifier:
  the stored \<^verbatim>\<open>Food_ID\<close> is NULL, \<^verbatim>\<open>Food_ID = ?\<close> is not true of the new row
  for any parameter, and the read-for-edit returns after the insert what it returned before
  it. For the example listing the read by the stored identifier returns no row.
\<close>

theorem read_for_edit_never_returns_added_listing:
  "read_for_edit (Food_ID (last (food_listings (add_listing rice seeded))))
     (add_listing rice seeded) = [] \<and>
   (\<forall>p. read_for_edit p (add_listing rice seeded) = read_for_edit p seeded) \<and>
   (\<forall>p. new_row rice \<notin> set (read_for_edit p (add_listing rice seeded)))"
proof -
  have a: "Food_ID (last (food_listings (add_listing rice seeded))) = None"
    by (simp add: add_listing_rows new_row_Food_ID)
  have b: "read_for_edit None (add_listing rice seeded) = []"
    by (rule read_for_edit_NULL)
  have c: "new_row rice \<notin> set (read_for_edit p (add_listing rice seeded))" for p
    by (simp add: read_for_edit_def where_Food_ID_new_row)
  show ?thesis
    using a b c by (simp add: read_for_edit_add_listing)
qed

section \<open>The gateway: connections and empty results\<close>

lemma run_query_Inr:
  "query (data s) = Inr df \<Longrightarrow>
     run_query query s = (Inr df, conn_close (next_connection s) (snd (get_connection s)))"
  by (simp add: run_query_def get_connection_def)

lemma run_query_Inl:
  "query (data s) = Inl e \<Longrightarrow> run_query query s = (Inl e, snd (get_connection s))"
  by (simp add: run_query_def get_connection_def)

lemma run_action_Inr:
  "query (data s) = Inr d \<Longrightarrow>
     run_action query s =
       (Inr (), conn_close (next_connection s) ((snd (get_connection s))\<lparr>data := d\<rparr>))"
  by (simp add: run_action_def get_connection_def)

lemma run_action_Inl:
  "query (data s) = Inl e \<Longrightarrow> run_action query s = (Inl e, snd (get_connection s))"
  by (simp add: run_action_def get_connection_def)

lemma closed_after_conn_close: "conn \<notin> set (open_connections (conn_close conn s))"
  by (simp add: conn_close_def)

lemma data_conn_close: "data (conn_close conn s) = data s"
  by (simp add: conn_close_def)

lemma open_after_get_connection:
  "fst (get_connection s) \<in> set (open_connections (snd (get_connection s)))"
  by (simp add: get_connection_def)

lemma data_get_connection: "data (snd (get_connection s)) = data s"
  by (simp add: get_connection_def)

lemma fst_get_connection: "fst (get_connection s) = next_connection s"
  by (simp add: get_connection_def)

text \<open>
  C3. The claim: the connection that a call of \<^verbatim>\<open>run_query\<close> or \<^verbatim>\<open>run_action\<close>
  opens is closed before the call returns on every exit path, the path where the statement
  raises included. On that path it is not: the error leaves the function before
  \<^verbatim>\<open>conn.close()\<close>, and the connection the call opened is still open afterwards.
\<close>

theorem gateway_error_leaves_connection_open:
  "fst (run_query failing_read store0) = Inl (DatabaseError ''no such table: listings'') \<and>
   fst (get_connection store0) \<in> set (open_connections (snd (run_query failing_read store0))) \<and>
   fst (run_action failing_write store0) = Inl (DatabaseError ''no such table: listings'') \<and>
   fst (get_connection store0) \<in> set (open_connections (snd (run_action failing_write store0)))"
  by (simp add: run_query_def run_action_def get_connection_def failing_read_def
      failing_write_def store0_def)

text \<open>
  C3, as the code has it. When the statement does not raise, the call returns its result
  (for \<^verbatim>\<open>run_action\<close>: commits the new contents) and the connection it opened is
  closed. When the statement raises, the call ends with that error, the contents of the
  database are as before, and the connection it opened is left open.
\<close>

theorem gateway_closes_connection_unless_statement_raises:
  "(case query (data s) of
      Inr df \<Rightarrow>
        fst (run_query query s) = Inr df \<and>
        data (snd (run_query query s)) = data s \<and>
        fst (get_connection s) \<notin> set (open_connections (snd (run_query query s)))
    | Inl e \<Rightarrow>
        fst (run_query query s) = Inl e \<and>
        data (snd (run_query query s)) = data s \<and>
        fst (get_connection s) \<in> set (open_connections (snd (run_query query s)))) \<and>
   (case action (data s) of
      Inr d \<Rightarrow>
        fst (run_action action s) = Inr () \<and>
        data (snd (run_action action s)) = d \<and>
        fst (get_connection s) \<notin> set (open_connections (snd (run_action action s)))
    | Inl e \<Rightarrow>
        fst (run_action action s) = Inl e \<and>
        data (snd (run_action action s)) = data s \<and>
        fst (get_connection s) \<in> set (open_connections (snd (run_action action s))))"
proof -
  have q: "case query (data s) of
      Inr df \<Rightarrow>
        fst (run_query query s) = Inr df \<and>
        data (snd (run_query query s)) = data s \<and>
        fst (get_connection s) \<notin> set (open_connections (snd (run_query query s)))
    | Inl e \<Rightarrow>
        fst (run_query query s) = Inl e \<and>
        data (snd (run_query query s)) = data s \<and>
        fst (get_connection s) \<in> set (open_connections (snd (run_query query s)))"
  proof (cases "query (data s)")
    case (Inl e)
    then show ?thesis
      by (simp add: run_query_Inl open_after_get_connection data_get_connection)
  next
    case (Inr df)
    then show ?thesis
      by (simp add: run_query_Inr closed_after_conn_close data_conn_close
          data_get_connection fst_get_connection)
  qed
  have a: "case action (data s) of
      Inr d \<Rightarrow>
        fst (run_action action s) = Inr () \<and>
        data (snd (run_action action s)) = d \<and>
        fst (get_connection s) \<notin> set (open_connections (snd (run_action action s)))
    | Inl e \<Rightarrow>
        fst (run_action action s) = Inl e \<and>
        data (snd (run_action action s)) = data s \<and>
        fst (get_connection s) \<in> set (open_connections (snd (run_action action s)))"
  proof (cases "action (data s)")
    case (Inl e)
    then show ?thesis
      by (simp add: run_action_Inl open_after_get_connection data_get_connection)
  next
    case (Inr d)
    then show ?thesis
      by (simp add: run_action_Inr closed_after_conn_close data_conn_close fst_get_connection)
  qed
  show ?thesis using q a by (rule conjI)
qed

theorem gateway_closes_connection_witness:
  "fst (current_data (Some 2) store0) = Inr [salad] \<and>
   open_connections (snd (current_data (Some 2) store0)) = [] \<and>
   fst (run_query failing_read store0) = Inl (DatabaseError ''no such table: listings'') \<and>
   open_connections (snd (run_query failing_read store0)) = [0] \<and>
   fst (Delete_Listing (Some 2) store0) = Inr () \<and>
   food_listings (data (snd (Delete_Listing (Some 2) store0))) = [bread] \<and>
   open_connections (snd (Delete_Listing (Some 2) store0)) = [] \<and>
   data (snd (run_action failing_write store0)) = seeded \<and>
   open_connections (snd (run_action failing_write store0)) = [0]"
  using gateway_closes_connection_unless_statement_raises
    [of "\<lambda>d. Inr (read_for_edit (Some 2) d)" store0 "\<lambda>d. Inr (delete_listing (Some 2) d)"]
    gateway_closes_connection_unless_statement_raises [of failing_read store0 failing_write]
  by (simp add: current_data_def Delete_Listing_def run_query_def run_action_def
      get_connection_def conn_close_def failing_read_def failing_write_def store0_def
      seeded_def read_for_edit_def delete_listing_def where_Food_ID_def bread_def salad_def)

text \<open>
  C10. A read whose result set has no rows makes \<^verbatim>\<open>run_query\<close> return the empty
  table: the call does not raise, and it closes its connection.
\<close>

theorem run_query_zero_rows:
  "query (data s) = Inr [] \<Longrightarrow>
     fst (run_query query s) = Inr [] \<and>
     fst (get_connection s) \<notin> set (open_connections (snd (run_query query s)))"
  by (simp add: run_query_Inr closed_after_conn_close fst_get_connection)

theorem run_query_zero_rows_witness:
  "read_for_edit (Some 99) (data store0) = [] \<and>
   fst (current_data (Some 99) store0) = Inr [] \<and>
   open_connections (snd (current_data (Some 99) store0)) = []"
  using run_query_zero_rows [of "\<lambda>d. Inr (read_for_edit (Some 99) d)" store0]
  by (simp add: current_data_def run_query_def get_connection_def conn_close_def store0_def
      seeded_def read_for_edit_def where_Food_ID_def bread_def salad_def)

section \<open>Listing flows: delete\<close>

lemma delete_listing_absent:
  "p \<notin> Food_ID ` set (food_listings d) \<Longrightarrow> delete_listing p d = d"
proof -
  assume a: "p \<notin> Food_ID ` set (food_listings d)"
  have "\<not> where_Food_ID p r" if "r \<in> set (food_listings d)" for r
    using a that by (cases p; cases "Food_ID r") (auto simp: where_Food_ID_def image_iff)
  then have "filter (\<lambda>r. \<not> where_Food_ID p r) (food_listings d) = food_listings d"
    by (simp add: filter_id_conv)
  then show ?thesis
    by (simp add: delete_listing_def)
qed

lemma delete_listing_twice: "delete_listing p (delete_listing p d) = delete_listing p d"
  by (simp add: delete_listing_def)

lemma read_for_edit_delete_listing: "read_for_edit p (delete_listing p d) = []"
  by (simp add: read_for_edit_def delete_listing_def)

lemma Delete_Listing_result: "fst (Delete_Listing p s) = Inr ()"
  by (simp add: Delete_Listing_def run_action_Inr)

lemma Delete_Listing_data: "data (snd (Delete_Listing p s)) = delete_listing p (data s)"
  by (simp add: Delete_Listing_def run_action_Inr data_conn_close)

lemma current_data_result: "fst (current_data p s) = Inr (read_for_edit p (data s))"
  by (simp add: current_data_def run_query_Inr)

text \<open>
  C5. Deleting by an identifier that no row carries ends without an error and leaves the
  stored data as it was, the first time and the second. For every identifier, present or
  not, the delete ends without an error, a second delete by the same identifier changes
  nothing further, and the read-for-edit by that identifier after the delete returns the
  empty table.
\<close>

theorem delete_of_absent_listing_is_noop:
  "(p \<notin> Food_ID ` set (food_listings (data s)) \<longrightarrow>
      fst (Delete_Listing p s) = Inr () \<and>
      data (snd (Delete_Listing p s)) = data s \<and>
      fst (Delete_Listing p (snd (Delete_Listing p s))) = Inr () \<and>
      data (snd (Delete_Listing p (snd (Delete_Listing p s)))) = data s) \<and>
   fst (Delete_Listing p s) = Inr () \<and>
   fst (Delete_Listing p (snd (Delete_Listing p s))) = Inr () \<and>
   data (snd (Delete_Listing p (snd (Delete_Listing p s)))) = data (snd (Delete_Listing p s)) \<and>
   fst (current_data p (snd (Delete_Listing p s))) = Inr []"
  by (simp add: Delete_Listing_result Delete_Listing_data current_data_result
      delete_listing_absent delete_listing_twice read_for_edit_delete_listing)

theorem delete_of_absent_listing_witness:
  "Some 99 \<notin> Food_ID ` set (food_listings (data store0)) \<and>
   fst (Delete_Listing (Some 99) store0) = Inr () \<and>
   data (snd (Delete_Listing (Some 99) store0)) = seeded \<and>
   data (snd (Delete_Listing (Some 99) (snd (Delete_Listing (Some 99) store0)))) = seeded \<and>
   fst (current_data (Some 99) (snd (Delete_Listing (Some 99) store0))) = Inr []"
proof -
  have h: "Some 99 \<notin> Food_ID ` set (food_listings (data store0))"
    by (simp add: store0_def seeded_def bread_def salad_def)
  have d: "data store0 = seeded"
    by (simp add: store0_def)
  show ?thesis
    using h delete_of_absent_listing_is_noop [of "Some 99" store0] by (simp add: d)
qed

section \<open>Listing flows: update\<close>

lemma where_Food_ID_set_columns: "where_Food_ID p (set_columns v r) = where_Food_ID p r"
  by (simp add: where_Food_ID_def set_columns_def)

lemma set_columns_twice: "set_columns v (set_columns v r) = set_columns v r"
  by (simp add: set_columns_def)

lemma where_Food_ID_Some: "where_Food_ID (Some x) r = (Food_ID r = Some x)"
  by (cases "Food_ID r") (auto simp: where_Food_ID_def)

lemma update_listing_nth:
  "i < length (food_listings d) \<Longrightarrow>
     food_listings (update_listing v p d) ! i =
       (if where_Food_ID p (food_listings d ! i) then set_columns v (food_listings d ! i)
        else food_listings d ! i)"
  by (simp add: update_listing_def)

text \<open>
  C6. Applying the same update a second time leaves the database, and so the stored row,
  as the first application left it.
\<close>

theorem update_listing_idempotent:
  "update_listing v p (update_listing v p d) = update_listing v p d"
  by (simp add: update_listing_def where_Food_ID_set_columns set_columns_twice o_def
      cong: if_cong)

text \<open>
  C7. An update that targets the identifier \<open>x\<close> keeps the number and the order of the
  rows and touches no other table. A row whose \<^verbatim>\<open>Food_ID\<close> is \<open>x\<close> keeps that
  \<^verbatim>\<open>Food_ID\<close> and has each of its eight other columns set to the supplied value; a
  row whose \<^verbatim>\<open>Food_ID\<close> is not \<open>x\<close> is unchanged.
\<close>

theorem update_listing_replaces_matching_row:
  "length (food_listings (update_listing v (Some x) d)) = length (food_listings d) \<and>
   providers (update_listing v (Some x) d) = providers d \<and>
   receivers (update_listing v (Some x) d) = receivers d \<and>
   claims (update_listing v (Some x) d) = claims d \<and>
   (\<forall>i < length (food_listings d).
      (Food_ID (food_listings d ! i) = Some x \<longrightarrow>
         food_listings (update_listing v (Some x) d) ! i =
           \<lparr> Food_ID = Some x,
             Food_Name = new_Food_Name v,
             Quantity = new_Quantity v,
             Expiry_Date = new_Expiry_Date v,
             Provider_ID = new_Provider_ID v,
             Provider_Type = new_Provider_Type v,
             Location = new_Location v,
             Food_Type = new_Food_Type v,
             Meal_Type = new_Meal_Type v \<rparr>) \<and>
      (Food_ID (food_listings d ! i) \<noteq> Some x \<longrightarrow>
         food_listings (update_listing v (Some x) d) ! i = food_listings d ! i))"
proof -
  have t: "length (food_listings (update_listing v (Some x) d)) = length (food_listings d) \<and>
      providers (update_listing v (Some x) d) = providers d \<and>
      receivers (update_listing v (Some x) d) = receivers d \<and>
      claims (update_listing v (Some x) d) = claims d"
    by (simp add: update_listing_def)
  have r: "Food_ID r = Some x \<Longrightarrow>
      set_columns v r =
        \<lparr> Food_ID = Some x, Food_Name = new_Food_Name v, Quantity = new_Quantity v,
          Expiry_Date = new_Expiry_Date v, Provider_ID = new_Provider_ID v,
          Provider_Type = new_Provider_Type v, Location = new_Location v,
          Food_Type = new_Food_Type v, Meal_Type = new_Meal_Type v \<rparr>" for r
    by (cases r) (simp add: set_columns_def)
  show ?thesis
    using t r by (simp add: update_listing_nth where_Food_ID_Some)
qed

theorem update_listing_replaces_matching_row_witness:
  "(0::nat) < length (food_listings seeded) \<and>
   Food_ID (food_listings seeded ! 0) \<noteq> Some 2 \<and>
   food_listings (update_listing rice (Some 2) seeded) ! 0 = bread \<and>
   (1::nat) < length (food_listings seeded) \<and>
   Food_ID (food_listings seeded ! 1) = Some 2 \<and>
   food_listings (update_listing rice (Some 2) seeded) ! 1 =
     \<lparr> Food_ID = Some 2,
       Food_Name = Some ''Rice'',
       Quantity = Some 10,
       Expiry_Date = Some ''2025-01-01'',
       Provider_ID = Some 1,
       Provider_Type = Some ''Restaurant'',
       Location = Some ''X'',
       Food_Type = Some ''Grain'',
       Meal_Type = Some ''Lunch'' \<rparr>"
proof -
  have l: "length (food_listings seeded) = 2"
    by (simp add: seeded_def)
  have b: "food_listings seeded ! 0 = bread" "food_listings seeded ! 1 = salad"
    by (simp_all add: seeded_def)
  have i: "Food_ID bread = Some 1" "Food_ID salad = Some 2"
    by (simp_all add: bread_def salad_def)
  have "\<forall>i < length (food_listings seeded).
      (Food_ID (food_listings seeded ! i) = Some 2 \<longrightarrow>
         food_listings (update_listing rice (Some 2) seeded) ! i =
           \<lparr> Food_ID = Some 2,
             Food_Name = new_Food_Name rice,
             Quantity = new_Quantity rice,
             Expiry_Date = new_Expiry_Date rice,
             Provider_ID = new_Provider_ID rice,
             Provider_Type = new_Provider_Type rice,
             Location = new_Location rice,
             Food_Type = new_Food_Type rice,
             Meal_Type = new_Meal_Type rice \<rparr>) \<and>
      (Food_ID (food_listings seeded ! i) \<noteq> Some 2 \<longrightarrow>
         food_listings (update_listing rice (Some 2) seeded) ! i = food_listings seeded ! i)"
    using update_listing_replaces_matching_row [of rice 2 seeded] by blast
  then have
    "food_listings (update_listing rice (Some 2) seeded) ! 0 = bread"
    "food_listings (update_listing rice (Some 2) seeded) ! 1 =
       \<lparr> Food_ID = Some 2,
         Food_Name = new_Food_Name rice,
         Quantity = new_Quantity rice,
         Expiry_Date = new_Expiry_Date rice,
         Provider_ID = new_Provider_ID rice,
         Provider_Type = new_Provider_Type rice,
         Location = new_Location rice,
         Food_Type = new_Food_Type rice,
         Meal_Type = new_Meal_Type rice \<rparr>"
    using l b i by auto
  then show ?thesis
    using l b i by (simp add: rice_def)
qed

section \<open>Properties of the reports\<close>

lemma fst_group_count: "map fst (group_count col rows) = sort (remdups (map col rows))"
  by (simp add: group_count_def o_def)

lemma snd_group_count:
  "map snd (group_count col rows) =
     map (\<lambda>k. length (filter (\<lambda>r. col r = k) rows)) (sort (remdups (map col rows)))"
  by (simp add: group_count_def o_def)

lemma sum_list_indicator:
  "distinct ks \<Longrightarrow>
     sum_list (map (\<lambda>k. if a = k then 1 else (0::nat)) ks) = (if a \<in> set ks then 1 else 0)"
  by (induction ks) auto

text \<open>Every row of the table falls into exactly one group.\<close>

lemma sum_list_group_sizes:
  "distinct ks \<Longrightarrow> col ` set rows \<subseteq> set ks \<Longrightarrow>
     sum_list (map (\<lambda>k. length (filter (\<lambda>r. col r = k) rows)) ks) = length rows"
proof (induction rows)
  case Nil
  then show ?case by simp
next
  case (Cons r rows)
  have "sum_list (map (\<lambda>k. length (filter (\<lambda>r. col r = k) (r # rows))) ks) =
        sum_list (map (\<lambda>k. (if col r = k then 1 else 0) +
          length (filter (\<lambda>r. col r = k) rows)) ks)"
    by (rule arg_cong [where f = sum_list], rule map_cong) auto
  also have "\<dots> = sum_list (map (\<lambda>k. if col r = k then 1 else 0) ks) +
        sum_list (map (\<lambda>k. length (filter (\<lambda>r. col r = k) rows)) ks)"
    by (simp add: sum_list_addf)
  also have "\<dots> = 1 + length rows"
    using Cons by (simp add: sum_list_indicator)
  finally show ?case by simp
qed

lemma sum_group_count: "sum_list (map snd (group_count col rows)) = length rows"
  by (simp add: snd_group_count sum_list_group_sizes)

text \<open>Ordering the rows of a result changes neither their total nor their keys.\<close>

lemma sum_list_insort_key:
  "sum_list (map g (insort_key f x xs)) = (g x :: nat) + sum_list (map g xs)"
  by (induction xs) auto

lemma sum_list_sort_key: "sum_list (map g (sort_key f xs)) = (sum_list (map g xs) :: nat)"
  by (induction xs) (auto simp: sum_list_insort_key)

lemma distinct_map_insort_key:
  "distinct (map g (insort_key f x xs)) = distinct (map g (x # xs))"
  by (induction xs) (auto simp: set_insort_key)

lemma distinct_map_sort_key: "distinct (map g (sort_key f xs)) = distinct (map g xs)"
  by (induction xs) (auto simp: distinct_map_insort_key)

lemma q7_descending: "sorted_wrt (\<lambda>a b. snd b \<le> snd a) (q7 d)"
proof -
  let ?f = "\<lambda>(food_type :: string option, n :: nat). - int n"
  have "sorted (map ?f (q7 d))"
    unfolding q7_def by (rule sorted_sort_key)
  then have "sorted_wrt (\<lambda>a b. ?f a \<le> ?f b) (q7 d)"
    by (simp add: sorted_wrt_map)
  then show ?thesis
    by (rule sorted_wrt_mono_rel [rotated]) (auto split: prod.splits)
qed

text \<open>
  C8. The food-type frequency report has one row for each \<^verbatim>\<open>Food_Type\<close> value present
  in \<^verbatim>\<open>food_listings\<close>, carrying the number of listings of that type; no type occurs in
  two rows; the rows are in descending order of the count; the number of rows is the
  number of distinct \<^verbatim>\<open>Food_Type\<close> values; and the counts add up to the number of
  listings.
\<close>

theorem q7_food_type_frequency:
  "sorted_wrt (\<lambda>a b. snd b \<le> snd a) (q7 d) \<and>
   set (q7 d) =
     (\<lambda>t. (t, length (filter (\<lambda>r. Food_Type r = t) (food_listings d)))) `
       Food_Type ` set (food_listings d) \<and>
   distinct (map fst (q7 d)) \<and>
   length (q7 d) = card (Food_Type ` set (food_listings d)) \<and>
   sum_list (map snd (q7 d)) = length (food_listings d)"
proof -
  have s: "set (q7 d) =
      (\<lambda>t. (t, length (filter (\<lambda>r. Food_Type r = t) (food_listings d)))) `
        Food_Type ` set (food_listings d)"
    by (simp add: q7_def group_count_def)
  have dd: "distinct (map fst (q7 d))"
    by (simp add: q7_def distinct_map_sort_key fst_group_count)
  have l: "length (q7 d) = card (Food_Type ` set (food_listings d))"
    by (simp add: q7_def group_count_def length_remdups_card_conv)
  have su: "sum_list (map snd (q7 d)) = length (food_listings d)"
    by (simp add: q7_def sum_list_sort_key sum_group_count)
  show ?thesis
    using q7_descending s dd l su by blast
qed

lemma q7_example:
  "q7 report_data =
     [(Some ''Vegan'', 2), (Some ''Vegetarian'', 2), (None, 1), (Some ''Grain'', 1)]"
  by (simp add: q7_def group_count_def report_data_def bread_def salad_def new_row_def rice_def)

text \<open>The rows of the inner UNION ALL that belong to one city.\<close>

lemma sum_filter_key:
  "distinct ks \<Longrightarrow>
     sum_list (map g (filter (\<lambda>k. k = a) ks)) = (if a \<in> set ks then g a else (0::nat))"
  by (induction ks) auto

lemma count_absent: "a \<notin> col ` set rows \<Longrightarrow> length (filter (\<lambda>r. col r = a) rows) = 0"
  by (auto simp: filter_empty_conv)

lemma filter_group_rows:
  "filter (\<lambda>(c, p, r). c = city) (map (\<lambda>(c, n). h c n) (group_count col rows)) =
   map (\<lambda>k. h k (length (filter (\<lambda>r. col r = k) rows)))
     (filter (\<lambda>k. fst (h k (length (filter (\<lambda>r. col r = k) rows))) = city)
        (sort (remdups (map col rows))))"
  by (simp add: group_count_def filter_map o_def split_def)

lemma providers_of_city:
  "sum_list (map (\<lambda>(c, p, r). p) (filter (\<lambda>(c, p, r). c = city) (q1_subquery d))) =
     length (filter (\<lambda>r. prov_City r = city) (providers d))"
proof -
  have a: "sum_list (map (\<lambda>(c, p, r). p)
        (filter (\<lambda>(c, p, r). c = city)
           (map (\<lambda>(c, n). (c, n, 0)) (group_count prov_City (providers d))))) =
      length (filter (\<lambda>r. prov_City r = city) (providers d))"
    by (simp add: filter_group_rows o_def sum_filter_key count_absent)
  have b: "sum_list (map (\<lambda>(c, p, r). p)
        (filter (\<lambda>(c, p, r). c = city)
           (map (\<lambda>(c, n). (c, 0, n)) (group_count recv_City (receivers d))))) = 0"
    by (simp add: filter_group_rows o_def)
  show ?thesis
    unfolding q1_subquery_def filter_append map_append sum_list_append a b by simp
qed

lemma receivers_of_city:
  "sum_list (map (\<lambda>(c, p, r). r) (filter (\<lambda>(c, p, r). c = city) (q1_subquery d))) =
     length (filter (\<lambda>r. recv_City r = city) (receivers d))"
proof -
  have a: "sum_list (map (\<lambda>(c, p, r). r)
        (filter (\<lambda>(c, p, r). c = city)
           (map (\<lambda>(c, n). (c, 0, n)) (group_count recv_City (receivers d))))) =
      length (filter (\<lambda>r. recv_City r = city) (receivers d))"
    by (simp add: filter_group_rows o_def sum_filter_key count_absent)
  have b: "sum_list (map (\<lambda>(c, p, r). r)
        (filter (\<lambda>(c, p, r). c = city)
           (map (\<lambda>(c, n). (c, n, 0)) (group_count prov_City (providers d))))) = 0"
    by (simp add: filter_group_rows o_def)
  show ?thesis
    unfolding q1_subquery_def filter_append map_append sum_list_append a b by simp
qed

lemma q1_cities:
  "sort (remdups (map fst (q1_subquery d))) =
     sort (remdups (map prov_City (providers d) @ map recv_City (receivers d)))"
proof (rule sorted_distinct_set_unique)
  show "set (sort (remdups (map fst (q1_subquery d)))) =
        set (sort (remdups (map prov_City (providers d) @ map recv_City (receivers d))))"
    by (simp add: q1_subquery_def group_count_def o_def split_def image_Un image_image)
qed simp_all

text \<open>
  C9. The city coverage report is the list, in ascending order of the city and without
  repetition, of the cities that occur in \<^verbatim>\<open>providers\<close> or in \<^verbatim>\<open>receivers\<close>,
  each with the number of providers and the number of receivers of that city; the number
  is zero where the city does not occur on that side.
\<close>

theorem q1_city_coverage:
  "q1 d =
     map (\<lambda>city.
            (city,
             length (filter (\<lambda>r. prov_City r = city) (providers d)),
             length (filter (\<lambda>r. recv_City r = city) (receivers d))))
         (sort (remdups (map prov_City (providers d) @ map recv_City (receivers d)))) \<and>
   sorted (map fst (q1 d)) \<and>
   distinct (map fst (q1 d)) \<and>
   set (map fst (q1 d)) = prov_City ` set (providers d) \<union> recv_City ` set (receivers d)"
proof -
  have e: "q1 d =
     map (\<lambda>city.
            (city,
             length (filter (\<lambda>r. prov_City r = city) (providers d)),
             length (filter (\<lambda>r. recv_City r = city) (receivers d))))
         (sort (remdups (map prov_City (providers d) @ map recv_City (receivers d))))"
    unfolding q1_def providers_of_city receivers_of_city q1_cities ..
  have m: "map fst (q1 d) =
      sort (remdups (map prov_City (providers d) @ map recv_City (receivers d)))"
    unfolding e by (simp add: o_def)
  show ?thesis
    using e unfolding m by simp
qed

lemma q1_example:
  "q1 report_data =
     [(None, 0, 1), (Some ''Agra'', 1, 1), (Some ''Delhi'', 0, 1), (Some ''Pune'', 2, 0)]"
  by (simp add: q1_def q1_subquery_def group_count_def report_data_def provider_in_def
      receiver_in_def)

end
